theory Spec2Isabelle
  imports Main "HOL-Library.AList"
begin

section \<open>Python values, exceptions and text\<close>

text \<open>
  The values that flow through \<^verbatim>\<open>perplexity_improved.py\<close> are what \<^verbatim>\<open>json.load\<close> and
  \<^verbatim>\<open>response.json()\<close> return, plus strings and \<^verbatim>\<open>None\<close>. A Python \<^verbatim>\<open>dict\<close> is an
  association list in insertion order; \<^verbatim>\<open>None\<close> is \<open>JNull\<close>. JSON numbers with a
  fraction are not modelled. Strings are ASCII text.
\<close>

datatype json =
    JNull
  | JBool bool
  | JInt int
  | JStr string
  | JArr "json list"
  | JObj "(string \<times> json) list"

text \<open>
  A printed line is the list of the pieces of its f-string: literal text, \<^verbatim>\<open>str(v)\<close> of a
  value, \<^verbatim>\<open>str(e)\<close> of an exception. Two equal lists are the same text.
  An exception raised by the interpreter or a library carries the operand it failed on
  or the message the environment gave it.
\<close>

datatype frag = Lit string | Str json | StrExn exn
and exn =
    KeyError json
  | IndexError
  | TypeError json
  | AttributeError json
  | EOFError
  | OSError string
  | JSONDecodeError string
  | RequestException string
  | InvalidSelectedModelException "frag list"

text \<open>
  How a call ends: it returns, or it is left by \<^verbatim>\<open>sys.exit(code)\<close>, by Ctrl-C, or by an
  exception of class \<^verbatim>\<open>Exception\<close>. \<^verbatim>\<open>SystemExit\<close> and \<^verbatim>\<open>KeyboardInterrupt\<close> are not
  subclasses of \<^verbatim>\<open>Exception\<close>.
\<close>

datatype stop = SystemExit int | KeyboardInterrupt | Raise exn

datatype 'a result = Return 'a | Abort stop

subsection \<open>Operators of Python on these values\<close>

definition truthy :: "json \<Rightarrow> bool" where
  "truthy v =
     (case v of
        JNull \<Rightarrow> False
      | JBool b \<Rightarrow> b
      | JInt i \<Rightarrow> i \<noteq> 0
      | JStr s \<Rightarrow> s \<noteq> []
      | JArr xs \<Rightarrow> xs \<noteq> []
      | JObj kvs \<Rightarrow> kvs \<noteq> [])"

fun starts_with :: "string \<Rightarrow> string \<Rightarrow> bool" where
  "starts_with [] s = True"
| "starts_with (p # ps) [] = False"
| "starts_with (p # ps) (c # cs) = (p = c \<and> starts_with ps cs)"

fun is_substring :: "string \<Rightarrow> string \<Rightarrow> bool" where
  "is_substring p [] = (p = [])"
| "is_substring p (c # cs) = (starts_with p (c # cs) \<or> is_substring p cs)"

text \<open>\<^verbatim>\<open>k in v\<close> for a string \<open>k\<close>: key of a dict, element of a list, substring of a string.\<close>

definition py_in :: "string \<Rightarrow> json \<Rightarrow> exn + bool" where
  "py_in k v =
     (case v of
        JObj kvs \<Rightarrow> Inr (k \<in> set (map fst kvs))
      | JArr xs \<Rightarrow> Inr (JStr k \<in> set xs)
      | JStr s \<Rightarrow> Inr (is_substring k s)
      | _ \<Rightarrow> Inl (TypeError v))"

text \<open>\<^verbatim>\<open>v[k]\<close> for a string key or an integer index.\<close>

definition py_index :: "'a list \<Rightarrow> int \<Rightarrow> 'a option" where
  "py_index xs i =
     (if 0 \<le> i \<and> i < int (length xs) then Some (xs ! nat i)
      else if i < 0 \<and> - int (length xs) \<le> i then Some (xs ! nat (int (length xs) + i))
      else None)"

definition py_getitem :: "json \<Rightarrow> json \<Rightarrow> exn + json" where
  "py_getitem v k =
     (case v of
        JObj kvs \<Rightarrow>
          (case k of
             JStr s \<Rightarrow> (case map_of kvs s of Some x \<Rightarrow> Inr x | None \<Rightarrow> Inl (KeyError k))
           | _ \<Rightarrow> Inl (KeyError k))
      | JArr xs \<Rightarrow>
          (case k of
             JInt i \<Rightarrow> (case py_index xs i of Some x \<Rightarrow> Inr x | None \<Rightarrow> Inl IndexError)
           | _ \<Rightarrow> Inl (TypeError k))
      | JStr s \<Rightarrow>
          (case k of
             JInt i \<Rightarrow> (case py_index s i of Some c \<Rightarrow> Inr (JStr [c]) | None \<Rightarrow> Inl IndexError)
           | _ \<Rightarrow> Inl (TypeError k))
      | _ \<Rightarrow> Inl (TypeError v))"

text \<open>\<^verbatim>\<open>config.get(k)\<close>: only a dict has the method.\<close>

definition py_get :: "json \<Rightarrow> string \<Rightarrow> exn + json" where
  "py_get v k =
     (case v of
        JObj kvs \<Rightarrow> Inr (case map_of kvs k of Some x \<Rightarrow> x | None \<Rightarrow> JNull)
      | _ \<Rightarrow> Inl (AttributeError v))"

text \<open>
  \<^verbatim>\<open>config[k] = x\<close>: a dict keeps the position of a key it has and appends a new one;
  a list or a string refuses a string index.
\<close>

definition py_setitem :: "json \<Rightarrow> string \<Rightarrow> json \<Rightarrow> exn + json" where
  "py_setitem v k x =
     (case v of
        JObj kvs \<Rightarrow> Inr (JObj (AList.update k x kvs))
      | _ \<Rightarrow> Inl (TypeError v))"

text \<open>\<^verbatim>\<open>for element in v\<close>: the elements of a list, the characters of a string, the keys
  of a dict.\<close>

definition py_iter :: "json \<Rightarrow> exn + json list" where
  "py_iter v =
     (case v of
        JArr xs \<Rightarrow> Inr xs
      | JStr s \<Rightarrow> Inr (map (\<lambda>c. JStr [c]) s)
      | JObj kvs \<Rightarrow> Inr (map (\<lambda>kv. JStr (fst kv)) kvs)
      | _ \<Rightarrow> Inl (TypeError v))"

definition py_items :: "json \<Rightarrow> exn + (string \<times> json) list" where
  "py_items v = (case v of JObj kvs \<Rightarrow> Inr kvs | _ \<Rightarrow> Inl (AttributeError v))"

definition is_space :: "char \<Rightarrow> bool" where
  "is_space c = (let n = (of_char c :: nat) in (9 \<le> n \<and> n \<le> 13) \<or> (28 \<le> n \<and> n \<le> 32))"

definition strip :: "string \<Rightarrow> string" where
  "strip s = rev (dropWhile is_space (rev (dropWhile is_space s)))"

definition lower_char :: "char \<Rightarrow> char" where
  "lower_char c =
     (let n = (of_char c :: nat) in if 65 \<le> n \<and> n \<le> 90 then char_of (n + 32) else c)"

definition lower :: "string \<Rightarrow> string" where
  "lower s = map lower_char s"

section \<open>The world a run acts on\<close>

text \<open>
  The settings file either does not exist, or exists and cannot be read or parsed
  (\<^verbatim>\<open>open\<close> or \<^verbatim>\<open>json.load\<close> raises the exception carried), or holds a JSON document.
  \<^verbatim>\<open>json.load\<close> of what \<^verbatim>\<open>json.dump\<close> wrote is taken to be the value written.
\<close>

datatype file_state = Absent | Unreadable exn | Doc json

text \<open>
  What can go wrong when the settings file is written: the directory cannot be made, the
  file cannot be opened for writing, the write breaks off after the file was truncated
  (a later read then raises the second exception), or \<^verbatim>\<open>chmod\<close> is refused.
\<close>

datatype fault = NoFault | MkdirFails exn | OpenFails exn | DumpFails exn exn | ChmodFails exn

text \<open>
  The input of a run is a finite list of events: a line typed, or Ctrl-C pressed while
  the program waits for a line. A read past the end of the list is the end of input.
\<close>

datatype input_ev = Line string | CtrlC

datatype out_ev = Print "frag list" | Prompt "frag list"

datatype err_ev = LogError "frag list" | ParserError "frag list"

record request =
  url :: string
  headers :: "(string \<times> frag list) list"
  data :: json

text \<open>
  What \<^verbatim>\<open>requests.post\<close> gives: a \<^verbatim>\<open>RequestException\<close>, or a response with its status
  code, its text, and what \<^verbatim>\<open>response.json()\<close> returns or raises.
\<close>

datatype http_result = ConnectionFailed exn | Response int string "exn + json"

record world =
  environ :: "string option"
  config_file :: file_state
  write_fault :: fault
  stdin :: "input_ev list"
  stdout :: "out_ev list"
  stderr :: "err_ev list"
  requests :: "request list"

type_synonym 'a io = "world \<Rightarrow> 'a result \<times> world"

definition return :: "'a \<Rightarrow> 'a io" where
  "return x w = (Return x, w)"

definition raise :: "exn \<Rightarrow> 'a io" where
  "raise e w = (Abort (Raise e), w)"

definition sys_exit :: "int \<Rightarrow> 'a io" where
  "sys_exit c w = (Abort (SystemExit c), w)"

definition then_do :: "'a io \<Rightarrow> ('a \<Rightarrow> 'b io) \<Rightarrow> 'b io" where
  "then_do m f w = (case m w of (Return x, w') \<Rightarrow> f x w' | (Abort s, w') \<Rightarrow> (Abort s, w'))"

definition lift :: "exn + 'a \<Rightarrow> 'a io" where
  "lift r w = (case r of Inl e \<Rightarrow> (Abort (Raise e), w) | Inr x \<Rightarrow> (Return x, w))"

definition print :: "frag list \<Rightarrow> unit io" where
  "print line w = (Return (), w\<lparr>stdout := stdout w @ [Print line]\<rparr>)"

fun print_all :: "frag list list \<Rightarrow> unit io" where
  "print_all [] w = (Return (), w)"
| "print_all (l # ls) w = then_do (print l) (\<lambda>_. print_all ls) w"

text \<open>\<^verbatim>\<open>input(prompt)\<close> writes the prompt and reads a line: the end of input raises
  \<^verbatim>\<open>EOFError\<close>, Ctrl-C raises \<^verbatim>\<open>KeyboardInterrupt\<close>.\<close>

definition input :: "frag list \<Rightarrow> string io" where
  "input prompt w =
     (let w' = w\<lparr>stdout := stdout w @ [Prompt prompt]\<rparr>
      in case stdin w of
           [] \<Rightarrow> (Abort (Raise EOFError), w')
         | CtrlC # rest \<Rightarrow> (Abort KeyboardInterrupt, w'\<lparr>stdin := rest\<rparr>)
         | Line s # rest \<Rightarrow> (Return s, w'\<lparr>stdin := rest\<rparr>))"

text \<open>\<^verbatim>\<open>logger.error\<close> adds a record to the error stream. The calls of \<^verbatim>\<open>logger.debug\<close>
  are left out: they write diagnostics only and nothing depends on them.\<close>

definition logger_error :: "frag list \<Rightarrow> unit io" where
  "logger_error msg w = (Return (), w\<lparr>stderr := stderr w @ [LogError msg]\<rparr>)"

section \<open>\<^verbatim>\<open>display\<close>\<close>

definition colors :: "(string \<times> string) list" where
  "colors =
     [(''red'', ''91m''), (''green'', ''92m''), (''yellow'', ''93m''),
      (''blue'', ''94m''), (''white'', ''97m'')]"

definition bg_colors :: "(string \<times> string) list" where
  "bg_colors =
     [(''black'', ''40''), (''red'', ''41''), (''green'', ''42''),
      (''yellow'', ''43''), (''blue'', ''44''), (''white'', ''47'')]"

definition esc :: char where
  "esc = CHR 0x1B"

definition display :: "frag list \<Rightarrow> string \<Rightarrow> bool \<Rightarrow> string \<Rightarrow> unit io" where
  "display message color bold bg_color =
     (case map_of bg_colors bg_color of
        None \<Rightarrow> raise (KeyError (JStr bg_color))
      | Some b \<Rightarrow>
          (case map_of colors color of
             None \<Rightarrow> raise (KeyError (JStr color))
           | Some c \<Rightarrow>
               if bold
               then print ([Lit (esc # ''[1;'' @ b @ '';'' @ c @ '' '')] @ message @ [Lit (esc # ''[0m'')])
               else print ([Lit (esc # ''['' @ b @ '';'' @ c @ '' '')] @ message @ [Lit (esc # ''[0m'')])))"

section \<open>\<^verbatim>\<open>ConfigManager\<close>\<close>

definition load_config :: "json io" where
  "load_config w =
     (case config_file w of
        Absent \<Rightarrow> (Return (JObj []), w)
      | Unreadable e \<Rightarrow>
          then_do (logger_error [Lit ''Error loading config: '', StrExn e])
            (\<lambda>_. return (JObj [])) w
      | Doc j \<Rightarrow> (Return j, w))"

definition save_config :: "json \<Rightarrow> unit io" where
  "save_config config w =
     (case write_fault w of
        MkdirFails e \<Rightarrow> (Abort (Raise e), w)
      | OpenFails e \<Rightarrow> logger_error [Lit ''Error saving config: '', StrExn e] w
      | DumpFails e e' \<Rightarrow>
          logger_error [Lit ''Error saving config: '', StrExn e]
            (w\<lparr>config_file := Unreadable e'\<rparr>)
      | ChmodFails e \<Rightarrow>
          logger_error [Lit ''Error saving config: '', StrExn e]
            (w\<lparr>config_file := Doc config\<rparr>)
      | NoFault \<Rightarrow> (Return (), w\<lparr>config_file := Doc config\<rparr>))"

definition get_api_key :: "json io" where
  "get_api_key w =
     (case environ w of
        Some k \<Rightarrow>
          if k \<noteq> [] then (Return (JStr k), w)
          else then_do load_config (\<lambda>config. lift (py_get config ''api_key'')) w
      | None \<Rightarrow> then_do load_config (\<lambda>config. lift (py_get config ''api_key'')) w)"

definition save_api_key :: "string \<Rightarrow> unit io" where
  "save_api_key api_key =
     then_do load_config (\<lambda>config.
     then_do (lift (py_setitem config ''api_key'' (JStr api_key))) (\<lambda>config'.
     save_config config'))"

definition prompt_for_api_key :: "string io" where
  "prompt_for_api_key =
     then_do (display [Lit ''No API key found. Please enter your Perplexity API key:'']
                ''yellow'' False ''black'') (\<lambda>_.
     then_do (display [Lit ''You can get one from: https://docs.perplexity.ai'']
                ''blue'' False ''black'') (\<lambda>_.
     then_do (input [Lit ''API Key: '']) (\<lambda>line.
       let api_key = strip line in
       if api_key = []
       then then_do (display [Lit ''API key cannot be empty!''] ''red'' False ''black'')
              (\<lambda>_. sys_exit 1)
       else
         then_do (input [Lit ''\<newline>Save this API key for future use? (y/n): '']) (\<lambda>line'.
           let save_choice = lower (strip line') in
           then_do
             (if save_choice = ''y''
              then then_do (save_api_key api_key)
                     (\<lambda>_. display [Lit ''API key saved successfully!''] ''green'' False ''black'')
              else return ())
             (\<lambda>_. return api_key)))))"

section \<open>\<^verbatim>\<open>ModelValidator\<close>\<close>

definition AVAILABLE_MODELS :: "string list" where
  "AVAILABLE_MODELS = [''sonar-reasoning-pro'', ''sonar-reasoning'', ''sonar-pro'', ''sonar'']"

definition validate :: "string \<Rightarrow> bool" where
  "validate model = (model \<in> set AVAILABLE_MODELS)"

definition get_available_models :: "string list" where
  "get_available_models = AVAILABLE_MODELS"

section \<open>\<^verbatim>\<open>Perplexity\<close>\<close>

text \<open>The parsed command line (\<^verbatim>\<open>args\<close>): \<^verbatim>\<open>query\<close> and \<^verbatim>\<open>api_key\<close> are \<^verbatim>\<open>None\<close> when
  not given, \<^verbatim>\<open>model\<close> defaults to \<^verbatim>\<open>sonar-pro\<close>.\<close>

record args =
  arg_query :: "string option"
  arg_verbose :: bool
  arg_usage :: bool
  arg_citations :: bool
  arg_glow :: bool
  arg_api_key :: "string option"
  arg_model :: string
  arg_clear_config :: bool

record ApiConfig =
  api_url :: string
  api_key :: json
  usage :: bool
  citations :: bool
  model :: json

definition ApiConfig_default :: ApiConfig where
  "ApiConfig_default =
     \<lparr>api_url = ''https://api.perplexity.ai/chat/completions'', api_key = JNull,
      usage = False, citations = False, model = JNull\<rparr>"

record perplexity =
  config :: ApiConfig
  use_glow :: bool

definition Perplexity_init :: "args \<Rightarrow> perplexity io" where
  "Perplexity_init a =
     (if \<not> validate (arg_model a)
      then raise (InvalidSelectedModelException
             [Lit ''Invalid model: '', Str (JStr (arg_model a)),
              Lit ''\<newline>Available models: '', Str (JArr (map JStr get_available_models))])
      else
        let cfg = ApiConfig_default
                    \<lparr>model := JStr (arg_model a), usage := arg_usage a,
                     citations := arg_citations a\<rparr>
        in case arg_api_key a of
             Some k \<Rightarrow>
               if k \<noteq> []
               then return \<lparr>config = cfg\<lparr>api_key := JStr k\<rparr>, use_glow = arg_glow a\<rparr>
               else
                 then_do get_api_key (\<lambda>key.
                 then_do (if key = JNull
                          then then_do prompt_for_api_key (\<lambda>k'. return (JStr k'))
                          else return key) (\<lambda>key'.
                 return \<lparr>config = cfg\<lparr>api_key := key'\<rparr>, use_glow = arg_glow a\<rparr>))
           | None \<Rightarrow>
               then_do get_api_key (\<lambda>key.
               then_do (if key = JNull
                        then then_do prompt_for_api_key (\<lambda>k'. return (JStr k'))
                        else return key) (\<lambda>key'.
               return \<lparr>config = cfg\<lparr>api_key := key'\<rparr>, use_glow = arg_glow a\<rparr>)))"

definition show_usage :: "json \<Rightarrow> bool \<Rightarrow> unit io" where
  "show_usage result glow =
     then_do (if glow then print [Lit ''# Tokens'']
              else display [Lit ''Tokens''] ''yellow'' True ''blue'') (\<lambda>_.
     then_do (lift (py_items result)) (\<lambda>items.
     then_do (print_all (map (\<lambda>(token, v). [Lit ''- '', Str (JStr token), Lit '': '', Str v]) items))
       (\<lambda>_. print [])))"

definition show_citations :: "json \<Rightarrow> bool \<Rightarrow> unit io" where
  "show_citations result glow =
     then_do (if glow then print [Lit ''# Citations'']
              else display [Lit ''Citations''] ''yellow'' True ''blue'') (\<lambda>_.
     then_do (lift (py_iter result)) (\<lambda>elements.
     then_do (print_all (map (\<lambda>element. [Lit ''- '', Str element]) elements))
       (\<lambda>_. print [])))"

definition show_content :: "perplexity \<Rightarrow> json \<Rightarrow> unit io" where
  "show_content self result =
     then_do (if use_glow self then print [Lit ''# Content'']
              else display [Lit ''Content''] ''yellow'' True ''blue'')
       (\<lambda>_. print [Str result])"

text \<open>The branch of \<^verbatim>\<open>get_response\<close> for status 200. \<^verbatim>\<open>and\<close> evaluates its right operand
  only when the left one is true.\<close>

definition on_success :: "perplexity \<Rightarrow> (exn + json) \<Rightarrow> unit io" where
  "on_success self body =
     then_do (lift body) (\<lambda>result.
     then_do
       (if citations (config self)
        then then_do (lift (py_in ''citations'' result)) (\<lambda>present.
               if present
               then then_do (lift (py_getitem result (JStr ''citations'')))
                      (\<lambda>c. show_citations c (use_glow self))
               else return ())
        else return ()) (\<lambda>_.
     then_do
       (if usage (config self)
        then then_do (lift (py_in ''usage'' result)) (\<lambda>present.
               if present
               then then_do (lift (py_getitem result (JStr ''usage'')))
                      (\<lambda>u. show_usage u (use_glow self))
               else return ())
        else return ()) (\<lambda>_.
     then_do (lift (py_in ''choices'' result)) (\<lambda>present.
     then_do
       (if present
        then then_do (lift (py_getitem result (JStr ''choices''))) (\<lambda>ch. return (truthy ch))
        else return False) (\<lambda>nonempty.
       if nonempty
       then
         then_do (lift (py_getitem result (JStr ''choices''))) (\<lambda>ch.
         then_do (lift (py_getitem ch (JInt 0))) (\<lambda>first.
         then_do (lift (py_getitem first (JStr ''message''))) (\<lambda>msg.
         then_do (lift (py_getitem msg (JStr ''content''))) (\<lambda>content.
         show_content self content))))
       else display [Lit ''No response content received''] ''yellow'' False ''black'')))))"

definition make_request :: "perplexity \<Rightarrow> string \<Rightarrow> request" where
  "make_request self message =
     \<lparr>url = api_url (config self),
      headers =
        [(''accept'', [Lit ''application/json'']),
         (''content-type'', [Lit ''application/json'']),
         (''Authorization'', [Lit ''Bearer '', Str (api_key (config self))])],
      data =
        JObj [(''model'', model (config self)),
              (''messages'',
               JArr [JObj [(''role'', JStr ''system''), (''content'', JStr ''Be precise and concise.'')],
                     JObj [(''role'', JStr ''user''), (''content'', JStr message)]])]\<rparr>"

text \<open>
  The provider is a parameter: what it answers to the \<open>n\<close>-th request of the run.
  \<^verbatim>\<open>requests.post\<close> records the request and asks it.
\<close>

type_synonym server = "nat \<Rightarrow> request \<Rightarrow> http_result"

definition post :: "server \<Rightarrow> request \<Rightarrow> http_result io" where
  "post srv req w = (Return (srv (length (requests w)) req), w\<lparr>requests := requests w @ [req]\<rparr>)"

text \<open>The question of the 401 branch, up to the user's answer.\<close>

definition ask_retry :: "string io" where
  "ask_retry =
     then_do (display [Lit ''Invalid API key! Please check your API key.''] ''red'' False ''black'')
       (\<lambda>_. input [Lit ''\<newline>Would you like to enter a new API key? (y/n): ''])"

lemma print_stdin: "print l w = (r, w') \<Longrightarrow> stdin w' = stdin w"
  by (auto simp: print_def)

lemma display_stdin: "display m c b g w = (r, w') \<Longrightarrow> stdin w' = stdin w"
  by (auto simp: display_def raise_def print_def split: option.splits if_splits)

lemma input_stdin:
  "input p w = (Return s, w') \<Longrightarrow> length (stdin w') < length (stdin w)"
  by (auto simp: input_def Let_def split: list.splits input_ev.splits)

lemma input_stdin_le: "input p w = (r, w') \<Longrightarrow> length (stdin w') \<le> length (stdin w)"
  by (auto simp: input_def Let_def split: list.splits input_ev.splits)

lemma then_do_stdin_le:
  assumes "then_do m f w = (r, w')"
    and "\<And>r1 w1. m w = (r1, w1) \<Longrightarrow> length (stdin w1) \<le> length (stdin w)"
    and "\<And>x w1 r2 w2. f x w1 = (r2, w2) \<Longrightarrow> length (stdin w2) \<le> length (stdin w1)"
  shows "length (stdin w') \<le> length (stdin w)"
proof (cases "m w")
  case (Pair r1 w1)
  show ?thesis
  proof (cases r1)
    case (Return x)
    with Pair assms(1) have "f x w1 = (r, w')" by (simp add: then_do_def)
    from assms(3) [OF this] assms(2) [OF Pair] show ?thesis by simp
  next
    case (Abort s)
    with Pair assms(1) have "w' = w1" by (simp add: then_do_def)
    with assms(2) [OF Pair] show ?thesis by simp
  qed
qed

lemma ask_retry_stdin:
  "ask_retry w = (Return s, w') \<Longrightarrow> length (stdin w') < length (stdin w)"
  by (auto simp: ask_retry_def then_do_def split: prod.splits result.splits
      dest!: display_stdin input_stdin)

lemma logger_error_stdin: "logger_error m w = (r, w') \<Longrightarrow> stdin w' = stdin w"
  by (auto simp: logger_error_def)

lemma load_config_stdin: "load_config w = (r, w') \<Longrightarrow> stdin w' = stdin w"
  by (auto simp: load_config_def then_do_def return_def logger_error_def split: file_state.splits)

lemma save_config_stdin: "save_config c w = (r, w') \<Longrightarrow> stdin w' = stdin w"
  by (auto simp: save_config_def logger_error_def split: fault.splits)

lemma save_api_key_stdin: "save_api_key k w = (r, w') \<Longrightarrow> stdin w' = stdin w"
  by (auto simp: save_api_key_def then_do_def lift_def split: prod.splits result.splits sum.splits
      dest!: load_config_stdin save_config_stdin)

lemma prompt_for_api_key_stdin:
  "prompt_for_api_key w = (r, w') \<Longrightarrow> length (stdin w') \<le> length (stdin w)"
  unfolding prompt_for_api_key_def
  by (erule then_do_stdin_le
      | simp add: Let_def return_def sys_exit_def split: if_splits
      | drule display_stdin | drule input_stdin_le | drule save_api_key_stdin)+

text \<open>
  \<^verbatim>\<open>get_response\<close>. On a 401 answered with \<^verbatim>\<open>y\<close> the method calls itself with the new
  key. Every such call has read at least one line, and the input of a run is a finite
  list of lines, so the recursion ends; the interpreter's own recursion limit is not
  modelled.
\<close>

function get_response :: "server \<Rightarrow> perplexity \<Rightarrow> string \<Rightarrow> unit io" where
  "get_response srv self message w =
     (case post srv (make_request self message) w of
        (Abort s, w1) \<Rightarrow> (Abort s, w1)
      | (Return (ConnectionFailed e), w1) \<Rightarrow>
          then_do (display [Lit ''Network error: '', StrExn e] ''red'' False ''black'')
            (\<lambda>_. sys_exit 1) w1
      | (Return (Response status_code text body), w1) \<Rightarrow>
          if status_code = 200 then on_success self body w1
          else if status_code = 401 then
            (case ask_retry w1 of
               (Abort s, w2) \<Rightarrow> (Abort s, w2)
             | (Return answer, w2) \<Rightarrow>
                 if lower (strip answer) = ''y''
                 then
                   (case prompt_for_api_key w2 of
                      (Abort s, w3) \<Rightarrow> (Abort s, w3)
                    | (Return new_key, w3) \<Rightarrow>
                        get_response srv
                          (self\<lparr>config := (config self)\<lparr>api_key := JStr new_key\<rparr>\<rparr>) message w3)
                 else sys_exit 1 w2)
          else
            then_do (display [Lit ''Error '', Str (JInt status_code), Lit '': '', Str (JStr text)]
                       ''red'' False ''black'')
              (\<lambda>_. sys_exit 1) w1)"
  by pat_completeness auto
termination
proof (relation "measure (\<lambda>(srv, self, message, w). length (stdin w))", goal_cases)
  case 1
  show ?case by simp
next
  case 2
  then show ?case
    by (auto simp: post_def dest!: ask_retry_stdin [OF sym] prompt_for_api_key_stdin [OF sym])
qed

declare get_response.simps [simp del]

text \<open>The handlers of \<^verbatim>\<open>main\<close>'s \<^verbatim>\<open>try\<close>: Ctrl-C ends the run with status 0, an
  \<^verbatim>\<open>Exception\<close> with status 1; \<^verbatim>\<open>sys.exit\<close> passes through.\<close>

definition handle :: "unit io \<Rightarrow> unit io" where
  "handle body w =
     (case body w of
        (Return x, w') \<Rightarrow> (Return x, w')
      | (Abort (SystemExit c), w') \<Rightarrow> (Abort (SystemExit c), w')
      | (Abort KeyboardInterrupt, w') \<Rightarrow>
          then_do (display [Lit ''\<newline>Operation cancelled by user''] ''yellow'' False ''black'')
            (\<lambda>_. sys_exit 0) w'
      | (Abort (Raise e), w') \<Rightarrow>
          then_do (display [Lit ''Error: '', StrExn e] ''red'' False ''black'')
            (\<lambda>_. sys_exit 1) w')"

definition parser_error :: "frag list \<Rightarrow> unit io" where
  "parser_error msg w = (Abort (SystemExit 2), w\<lparr>stderr := stderr w @ [ParserError msg]\<rparr>)"

definition main :: "server \<Rightarrow> args \<Rightarrow> unit io" where
  "main srv a =
     (if arg_clear_config a
      then
        then_do
          (\<lambda>w. if config_file w \<noteq> Absent
               then display [Lit ''Configuration cleared!''] ''green'' False ''black''
                      (w\<lparr>config_file := Absent\<rparr>)
               else display [Lit ''No configuration to clear''] ''yellow'' False ''black'' w)
          (\<lambda>_. sys_exit 0)
      else
        (case arg_query a of
           None \<Rightarrow> parser_error [Lit ''Query is required unless using --clear-config'']
         | Some q \<Rightarrow>
             if q = [] then parser_error [Lit ''Query is required unless using --clear-config'']
             else handle (then_do (Perplexity_init a) (\<lambda>self. get_response srv self q))))"

text \<open>The status the process ends with: 0 when \<^verbatim>\<open>main\<close> returns, the code of
  \<^verbatim>\<open>sys.exit\<close>, 1 after an uncaught exception.\<close>

definition exit_status :: "unit result \<Rightarrow> int" where
  "exit_status r =
     (case r of
        Return _ \<Rightarrow> 0
      | Abort (SystemExit c) \<Rightarrow> c
      | Abort KeyboardInterrupt \<Rightarrow> 130
      | Abort (Raise e) \<Rightarrow> 1)"

section \<open>Observations and fixtures used by the statements\<close>

text \<open>Saving a settings document and loading it back, as one action.\<close>

definition save_then_load :: "json \<Rightarrow> json io" where
  "save_then_load settings = then_do (save_config settings) (\<lambda>_. load_config)"

text \<open>The key a constructed \<^verbatim>\<open>Perplexity\<close> object holds, if the constructor returns.\<close>

definition resolved :: "args \<Rightarrow> world \<Rightarrow> json option" where
  "resolved a w =
     (case Perplexity_init a w of
        (Return p, w') \<Rightarrow> Some (api_key (config p))
      | (Abort s, w') \<Rightarrow> None)"

text \<open>
  The four sources of a key, each as what it offers: the command-line override and the
  environment variable offer a non-empty string, the settings file offers the value
  stored under \<^verbatim>\<open>api_key\<close> unless it is \<^verbatim>\<open>null\<close>, the prompt offers what the user types
  (after the settings file was consulted).
\<close>

definition explicit_source :: "args \<Rightarrow> string option" where
  "explicit_source a =
     (case arg_api_key a of Some k \<Rightarrow> if k \<noteq> [] then Some k else None | None \<Rightarrow> None)"

definition environment_source :: "world \<Rightarrow> string option" where
  "environment_source w =
     (case environ w of Some k \<Rightarrow> if k \<noteq> [] then Some k else None | None \<Rightarrow> None)"

definition settings_source :: "world \<Rightarrow> json option" where
  "settings_source w =
     (case config_file w of
        Doc (JObj kvs) \<Rightarrow>
          (case map_of kvs ''api_key'' of
             Some v \<Rightarrow> if v \<noteq> JNull then Some v else None
           | None \<Rightarrow> None)
      | _ \<Rightarrow> None)"

definition prompted_source :: "world \<Rightarrow> json option" where
  "prompted_source w =
     (case prompt_for_api_key (snd (load_config w)) of
        (Return k, w') \<Rightarrow> Some (JStr k)
      | (Abort s, w') \<Rightarrow> None)"

text \<open>The settings file, when it parses, holds a mapping (a JSON object).\<close>

definition settings_is_mapping :: "world \<Rightarrow> bool" where
  "settings_is_mapping w =
     (case config_file w of Doc (JObj kvs) \<Rightarrow> True | Doc _ \<Rightarrow> False | _ \<Rightarrow> True)"

text \<open>The rest of the constructor once \<^verbatim>\<open>get_api_key\<close> has answered.\<close>

definition finish_init :: "args \<Rightarrow> json \<Rightarrow> perplexity io" where
  "finish_init a key =
     then_do (if key = JNull then then_do prompt_for_api_key (\<lambda>k'. return (JStr k')) else return key)
       (\<lambda>key'. return
          \<lparr>config = ApiConfig_default
                      \<lparr>model := JStr (arg_model a), usage := arg_usage a,
                       citations := arg_citations a, api_key := key'\<rparr>,
           use_glow = arg_glow a\<rparr>)"

text \<open>A fresh world, a world whose settings file cannot be opened for writing, a
  command line with the defaults, and a settings document with a second entry.\<close>

definition world0 :: world where
  "world0 =
     \<lparr>environ = None, config_file = Absent, write_fault = NoFault, stdin = [],
      stdout = [], stderr = [], requests = []\<rparr>"

definition read_only_world :: world where
  "read_only_world = world0\<lparr>write_fault := OpenFails (OSError ''Read-only file system'')\<rparr>"

definition args0 :: args where
  "args0 =
     \<lparr>arg_query = Some ''hi'', arg_verbose = False, arg_usage = False, arg_citations = False,
      arg_glow = False, arg_api_key = None, arg_model = ''sonar-pro'', arg_clear_config = False\<rparr>"

definition stored_settings :: json where
  "stored_settings = JObj [(''api_key'', JStr ''old''), (''theme'', JStr ''dark'')]"

text \<open>A provider that answers every request with 401, and one that answers every
  request with 200 and a given JSON body.\<close>

definition rejecting_server :: server where
  "rejecting_server n r = Response 401 [] (Inr JNull)"

definition answering_server :: "json \<Rightarrow> server" where
  "answering_server body n r = Response 200 [] (Inr body)"




text \<open>
  The rendered sections, written out: a header in one of the two styles, then the lines
  of the section. These are what the statements about rendering compare the output of
  \<^verbatim>\<open>get_response\<close> with.
\<close>

definition header :: "bool \<Rightarrow> string \<Rightarrow> out_ev" where
  "header glow title =
     (if glow then Print [Lit (''# '' @ title)]
      else Print [Lit (esc # ''[1;44;93m ''), Lit title, Lit (esc # ''[0m'')])"

definition citations_section :: "bool \<Rightarrow> json list \<Rightarrow> out_ev list" where
  "citations_section glow cs =
     header glow ''Citations'' # map (\<lambda>c. Print [Lit ''- '', Str c]) cs @ [Print []]"

definition usage_section :: "bool \<Rightarrow> (string \<times> json) list \<Rightarrow> out_ev list" where
  "usage_section glow us =
     header glow ''Tokens'' #
       map (\<lambda>(token, v). Print [Lit ''- '', Str (JStr token), Lit '': '', Str v]) us @ [Print []]"

definition content_section :: "bool \<Rightarrow> json \<Rightarrow> out_ev list" where
  "content_section glow c = [header glow ''Content'', Print [Str c]]"

definition no_content_notice :: "out_ev list" where
  "no_content_notice =
     [Print [Lit (esc # ''[40;93m ''), Lit ''No response content received'', Lit (esc # ''[0m'')]]"

definition rendered ::
  "bool \<Rightarrow> json list option \<Rightarrow> (string \<times> json) list option \<Rightarrow> json option \<Rightarrow> out_ev list" where
  "rendered glow cit use content =
     (case cit of None \<Rightarrow> [] | Some cs \<Rightarrow> citations_section glow cs) @
     (case use of None \<Rightarrow> [] | Some us \<Rightarrow> usage_section glow us) @
     (case content of None \<Rightarrow> no_content_notice | Some c \<Rightarrow> content_section glow c)"

text \<open>
  What of a response body (a JSON object) is to be rendered: the \<^verbatim>\<open>citations\<close> field when
  the flag is set and the field is present, the \<^verbatim>\<open>usage\<close> field likewise, and the content
  when \<^verbatim>\<open>choices\<close> is a non-empty array whose first element has \<^verbatim>\<open>message.content\<close> (no
  content when \<^verbatim>\<open>choices\<close> is absent or falsy).
\<close>

definition wanted_citations :: "perplexity \<Rightarrow> (string \<times> json) list \<Rightarrow> json option" where
  "wanted_citations self kvs = (if citations (config self) then map_of kvs ''citations'' else None)"

definition wanted_usage :: "perplexity \<Rightarrow> (string \<times> json) list \<Rightarrow> json option" where
  "wanted_usage self kvs = (if usage (config self) then map_of kvs ''usage'' else None)"

definition has_content :: "(string \<times> json) list \<Rightarrow> json option \<Rightarrow> bool" where
  "has_content kvs content =
     (case content of
        None \<Rightarrow> (case map_of kvs ''choices'' of None \<Rightarrow> True | Some ch \<Rightarrow> \<not> truthy ch)
      | Some c \<Rightarrow>
          (\<exists>m mm rest. map_of kvs ''choices'' = Some (JArr (JObj m # rest)) \<and>
             map_of m ''message'' = Some (JObj mm) \<and> map_of mm ''content'' = Some c))"

text \<open>The response of the spec's rendering example, and a client with both flags set.\<close>

definition example_body :: "(string \<times> json) list" where
  "example_body =
     [(''citations'', JArr [JStr ''a'', JStr ''b'']),
      (''usage'', JObj [(''total'', JInt 5)]),
      (''choices'', JArr [JObj [(''message'', JObj [(''content'', JStr ''hi'')])]])]"

definition example_self :: perplexity where
  "example_self =
     \<lparr>config = ApiConfig_default
                 \<lparr>api_key := JStr ''X'', model := JStr ''sonar'', usage := True, citations := True\<rparr>,
      use_glow = True\<rparr>"

text \<open>
  Two printed lines agree up to the header style when they are equal, or are the same
  section header in the two styles. Two worlds agree up to the header style when their
  outputs do, line by line, and everything else is equal. Two actions are alike when,
  started in such worlds, they end the same way in such worlds.
\<close>

definition same_but_header :: "out_ev \<Rightarrow> out_ev \<Rightarrow> bool" where
  "same_but_header a b =
     (a = b \<or> (\<exists>title \<in> {''Citations'', ''Tokens'', ''Content''}.
                 a = header True title \<and> b = header False title))"

text \<open>
  Two printed lines agree up to the header style when they are equal, or are the same
  section header in the two styles. Two worlds agree up to the header style when their
  outputs do, line by line, and everything else is equal. Two actions are alike when,
  started in such worlds, they end the same way in such worlds.
\<close>

definition same_but_headers :: "world \<Rightarrow> world \<Rightarrow> bool" where
  "same_but_headers w v =
     (environ w = environ v \<and> config_file w = config_file v \<and> write_fault w = write_fault v \<and>
      stdin w = stdin v \<and> stderr w = stderr v \<and> requests w = requests v \<and>
      list_all2 same_but_header (stdout w) (stdout v))"

definition alike :: "'a io \<Rightarrow> 'a io \<Rightarrow> bool" where
  "alike m m' =
     (\<forall>w v. same_but_headers w v \<longrightarrow>
        fst (m w) = fst (m' v) \<and> same_but_headers (snd (m w)) (snd (m' v)))"

section \<open>Basic facts\<close>

lemmas display_defs = display_def colors_def bg_colors_def raise_def print_def

lemma then_do_Return [simp]: "m w = (Return x, w') \<Longrightarrow> then_do m f w = f x w'"
  by (simp add: then_do_def)

lemma then_do_Abort [simp]: "m w = (Abort s, w') \<Longrightarrow> then_do m f w = (Abort s, w')"
  by (simp add: then_do_def)

section \<open>The settings store\<close>



text \<open>
  Claim C7, as stated, fails: \<^verbatim>\<open>save_config\<close> catches a failed write and only logs it.
  Where the settings file cannot be opened for writing, saving \<^verbatim>\<open>{"api_key": "K"}\<close> and
  loading gives the empty mapping, which has no \<^verbatim>\<open>api_key\<close>.
\<close>

theorem save_then_load_unwritable_counterexample:
  "save_then_load (JObj [(''api_key'', JStr ''K'')]) read_only_world =
     (Return (JObj []),
      read_only_world
        \<lparr>stderr := [LogError [Lit ''Error saving config: '',
                              StrExn (OSError ''Read-only file system'')]]\<rparr>) \<and>
   map_of ([] :: (string \<times> json) list) ''api_key'' \<noteq> Some (JStr ''K'')"
  by (simp add: save_then_load_def read_only_world_def world0_def save_config_def
      load_config_def logger_error_def then_do_def)

text \<open>
  Claim C7, amended. When the write succeeds (the directory can be made and the file is
  opened and written; a refused \<^verbatim>\<open>chmod\<close> is only logged), saving a settings mapping and
  loading it back returns that mapping, so one that contains \<^verbatim>\<open>"api_key": "K"\<close> whenever
  the saved one does.
\<close>

theorem save_then_load_round_trip:
  assumes "write_fault w = NoFault \<or> write_fault w = ChmodFails e"
    and "map_of S ''api_key'' = Some (JStr K)"
  shows "\<exists>S' w'. save_then_load (JObj S) w = (Return (JObj S'), w') \<and> S' = S \<and>
           map_of S' ''api_key'' = Some (JStr K)"
  using assms
  by (auto simp: save_then_load_def save_config_def load_config_def logger_error_def then_do_def)

theorem save_then_load_round_trip_witness:
  "\<exists>S' w'. save_then_load (JObj [(''api_key'', JStr ''K'')]) world0 = (Return (JObj S'), w') \<and>
      S' = [(''api_key'', JStr ''K'')] \<and> map_of S' ''api_key'' = Some (JStr ''K'')"
  using save_then_load_round_trip [of world0 "OSError []" "[(''api_key'', JStr ''K'')]" "''K''"]
  by (simp add: world0_def)

text \<open>
  Claim C10, as stated, fails for the same reason: where the settings file cannot be
  opened for writing, \<^verbatim>\<open>save_api_key("new")\<close> leaves the stored mapping as it was, with
  the old key.
\<close>

theorem save_api_key_unwritable_counterexample:
  "config_file (snd (save_api_key ''new'' (read_only_world\<lparr>config_file := Doc stored_settings\<rparr>)))
     = Doc (JObj [(''api_key'', JStr ''old''), (''theme'', JStr ''dark'')])"
  by (simp add: stored_settings_def read_only_world_def world0_def save_api_key_def save_config_def
      load_config_def logger_error_def then_do_def lift_def py_setitem_def)

text \<open>
  Claim C10, amended. When the write succeeds, \<^verbatim>\<open>save_api_key(K)\<close> leaves the file holding
  the prior settings mapping \<open>S\<close> (what \<^verbatim>\<open>load_config\<close> returned) with the \<^verbatim>\<open>api_key\<close> entry set
  to \<open>K\<close>: every other key keeps its value (and the entries keep their order).
\<close>

theorem save_api_key_frame:
  assumes "fst (load_config w) = Return (JObj S)"
    and "write_fault w = NoFault \<or> write_fault w = ChmodFails e"
  shows "\<exists>S'. config_file (snd (save_api_key K w)) = Doc (JObj S') \<and>
           S' = AList.update ''api_key'' (JStr K) S \<and>
           map_of S' ''api_key'' = Some (JStr K) \<and>
           (\<forall>k. k \<noteq> ''api_key'' \<longrightarrow> map_of S' k = map_of S k) \<and>
           fst (save_api_key K w) = Return ()"
  using assms
  by (cases "config_file w")
    (auto simp: save_api_key_def save_config_def load_config_def logger_error_def then_do_def
      return_def lift_def py_setitem_def update_conv')

theorem save_api_key_frame_witness:
  "\<exists>S'. config_file (snd (save_api_key ''new'' (world0\<lparr>config_file := Doc stored_settings\<rparr>)))
           = Doc (JObj S') \<and>
         S' = [(''api_key'', JStr ''new''), (''theme'', JStr ''dark'')] \<and>
         map_of S' ''api_key'' = Some (JStr ''new'') \<and>
         map_of S' ''theme'' = Some (JStr ''dark'')"
  using save_api_key_frame
    [of "world0\<lparr>config_file := Doc stored_settings\<rparr>"
        "[(''api_key'', JStr ''old''), (''theme'', JStr ''dark'')]" "OSError []" "''new''"]
  by (simp add: world0_def stored_settings_def load_config_def)

section \<open>Credential resolution\<close>

lemma get_api_key_sources:
  assumes "settings_is_mapping w"
  shows "get_api_key w =
     (case environment_source w of
        Some k \<Rightarrow> (Return (JStr k), w)
      | None \<Rightarrow>
          (Return (case settings_source w of Some v \<Rightarrow> v | None \<Rightarrow> JNull), snd (load_config w)))"
  using assms
  by (auto simp: get_api_key_def environment_source_def settings_source_def settings_is_mapping_def
      load_config_def then_do_def lift_def py_get_def return_def logger_error_def
      split: option.splits file_state.splits json.splits)

lemma init_explicit:
  "validate (arg_model a) \<Longrightarrow> explicit_source a = Some k \<Longrightarrow>
   Perplexity_init a w =
     (Return \<lparr>config = ApiConfig_default
                \<lparr>model := JStr (arg_model a), usage := arg_usage a,
                 citations := arg_citations a, api_key := JStr k\<rparr>,
              use_glow = arg_glow a\<rparr>, w)"
  by (auto simp: Perplexity_init_def explicit_source_def Let_def return_def
      split: option.splits if_splits)

lemma init_no_explicit:
  "validate (arg_model a) \<Longrightarrow> explicit_source a = None \<Longrightarrow>
   Perplexity_init a = then_do get_api_key (finish_init a)"
  by (auto simp: Perplexity_init_def explicit_source_def Let_def finish_init_def [abs_def]
      split: option.splits if_splits)

lemma finish_init_key:
  "key \<noteq> JNull \<Longrightarrow>
   finish_init a key w =
     (Return \<lparr>config = ApiConfig_default
                \<lparr>model := JStr (arg_model a), usage := arg_usage a,
                 citations := arg_citations a, api_key := key\<rparr>,
              use_glow = arg_glow a\<rparr>, w)"
  by (simp add: finish_init_def then_do_def return_def)

lemma finish_init_prompt:
  "finish_init a JNull w =
     (case prompt_for_api_key w of
        (Return k, w') \<Rightarrow>
          (Return \<lparr>config = ApiConfig_default
                \<lparr>model := JStr (arg_model a), usage := arg_usage a,
                 citations := arg_citations a, api_key := JStr k\<rparr>,
              use_glow = arg_glow a\<rparr>, w')
      | (Abort s, w') \<Rightarrow> (Abort s, w'))"
  by (simp add: finish_init_def then_do_def return_def split: prod.splits result.splits)

lemma settings_source_not_null: "settings_source w = Some v \<Longrightarrow> v \<noteq> JNull"
  by (auto simp: settings_source_def split: file_state.splits json.splits option.splits if_splits)

text \<open>
  Claim C1, as stated, fails: a settings file whose \<^verbatim>\<open>api_key\<close> entry is the empty string is
  not skipped. With no override and no environment variable, and a user ready to type the
  key \<^verbatim>\<open>P\<close>, the resolved key is the empty string of the settings file, not \<^verbatim>\<open>P\<close>:
  \<^verbatim>\<open>__init__\<close> prompts only when \<^verbatim>\<open>get_api_key\<close> returns \<^verbatim>\<open>None\<close>.
\<close>

theorem empty_settings_key_counterexample:
  "resolved args0
     (world0\<lparr>config_file := Doc (JObj [(''api_key'', JStr '''')]),
             stdin := [Line ''P'', Line ''n'']\<rparr>) = Some (JStr '''')"
  by (simp add: resolved_def args0_def world0_def Perplexity_init_def validate_def
      AVAILABLE_MODELS_def Let_def get_api_key_def load_config_def then_do_def lift_def
      py_get_def return_def)

text \<open>
  Claim C1, amended. For a valid model and a settings file that, when it parses, holds a
  mapping, the resolved key is the first of: the command-line override if it is
  non-empty; the value of \<^verbatim>\<open>PERPLEXITY_API_KEY\<close> if it is set and non-empty; the
  \<^verbatim>\<open>api_key\<close> entry of the settings file if it is present and not \<^verbatim>\<open>null\<close>, taken as it is
  (also when it is the empty string); the key typed at the prompt. This holds for every
  combination of the sources being present or absent.
\<close>

theorem credential_precedence:
  assumes "validate (arg_model a)" and "settings_is_mapping w"
  shows "resolved a w =
     (case explicit_source a of
        Some k \<Rightarrow> Some (JStr k)
      | None \<Rightarrow>
          (case environment_source w of
             Some k \<Rightarrow> Some (JStr k)
           | None \<Rightarrow>
               (case settings_source w of
                  Some v \<Rightarrow> Some v
                | None \<Rightarrow> prompted_source w)))"
proof (cases "explicit_source a")
  case (Some k)
  with assms(1) show ?thesis by (simp add: resolved_def init_explicit)
next
  case None
  note no_explicit = this
  have init: "Perplexity_init a w = then_do get_api_key (finish_init a) w"
    using init_no_explicit [OF assms(1) None] by simp
  show ?thesis
  proof (cases "environment_source w")
    case (Some k)
    then show ?thesis
      using no_explicit
      by (simp add: resolved_def init then_do_def get_api_key_sources [OF assms(2)] finish_init_key)
  next
    case None
    note no_env = this
    show ?thesis
    proof (cases "settings_source w")
      case (Some v)
      then show ?thesis
        using no_explicit no_env settings_source_not_null [OF Some]
        by (simp add: resolved_def init then_do_def get_api_key_sources [OF assms(2)]
            finish_init_key)
    next
      case None
      then show ?thesis
        using no_explicit no_env
        by (simp add: resolved_def init then_do_def get_api_key_sources [OF assms(2)]
            finish_init_prompt prompted_source_def split: prod.splits result.splits)
    qed
  qed
qed

theorem credential_precedence_witness:
  "resolved (args0\<lparr>arg_api_key := Some ''X''\<rparr>) (world0\<lparr>environ := Some ''Y''\<rparr>) = Some (JStr ''X'')"
  using credential_precedence
    [of "args0\<lparr>arg_api_key := Some ''X''\<rparr>" "world0\<lparr>environ := Some ''Y''\<rparr>"]
  by (simp add: args0_def world0_def validate_def AVAILABLE_MODELS_def settings_is_mapping_def
      explicit_source_def)

section \<open>Model validation\<close>

text \<open>
  Claim C4. For a model outside the four allowed identifiers the constructor raises
  \<^verbatim>\<open>InvalidSelectedModelException\<close>, whose message names the model given and lists the
  allowed ones, and leaves the world as it was. A run of \<^verbatim>\<open>main\<close> with a query then ends
  with status 1 and has sent no request.
\<close>

theorem invalid_model_rejected:
  assumes "arg_model a \<notin> {''sonar-reasoning-pro'', ''sonar-reasoning'', ''sonar-pro'', ''sonar''}"
  shows "Perplexity_init a w =
           (Abort (Raise (InvalidSelectedModelException
              [Lit ''Invalid model: '', Str (JStr (arg_model a)),
               Lit ''\<newline>Available models: '',
               Str (JArr [JStr ''sonar-reasoning-pro'', JStr ''sonar-reasoning'',
                          JStr ''sonar-pro'', JStr ''sonar''])])), w) \<and>
         (\<forall>q. arg_query a = Some q \<and> q \<noteq> [] \<and> \<not> arg_clear_config a \<longrightarrow>
            fst (main srv a w) = Abort (SystemExit 1) \<and>
            requests (snd (main srv a w)) = requests w)"
proof -
  have init: "Perplexity_init a w =
           (Abort (Raise (InvalidSelectedModelException
              [Lit ''Invalid model: '', Str (JStr (arg_model a)),
               Lit ''\<newline>Available models: '',
               Str (JArr [JStr ''sonar-reasoning-pro'', JStr ''sonar-reasoning'',
                          JStr ''sonar-pro'', JStr ''sonar''])])), w)"
    using assms
    by (simp add: Perplexity_init_def validate_def AVAILABLE_MODELS_def get_available_models_def
        raise_def)
  show ?thesis
    by (simp add: init main_def handle_def then_do_def display_defs sys_exit_def)
qed

theorem invalid_model_rejected_witness:
  "fst (main (answering_server JNull) (args0\<lparr>arg_model := ''not-a-real-model''\<rparr>) world0)
     = Abort (SystemExit 1) \<and>
   requests (snd (main (answering_server JNull)
                    (args0\<lparr>arg_model := ''not-a-real-model''\<rparr>) world0)) = []"
  using invalid_model_rejected
    [of "args0\<lparr>arg_model := ''not-a-real-model''\<rparr>" world0 "answering_server JNull"]
  by (simp add: args0_def world0_def answering_server_def)

section \<open>The 401 branch\<close>

lemma ask_retry_Line:
  "stdin w = Line answer # rest \<Longrightarrow>
   ask_retry w =
     (Return answer,
      w\<lparr>stdout := stdout w @
           [Print [Lit (esc # ''[40;91m ''), Lit ''Invalid API key! Please check your API key.'',
                   Lit (esc # ''[0m'')],
            Prompt [Lit ''\<newline>Would you like to enter a new API key? (y/n): '']],
         stdin := rest\<rparr>)"
  by (simp add: ask_retry_def then_do_def display_defs input_def)

text \<open>
  Claim C6. When the request is answered with status 401 and the user's answer to the
  retry question is anything but \<^verbatim>\<open>y\<close> (after \<^verbatim>\<open>strip().lower()\<close>), \<^verbatim>\<open>get_response\<close> leaves
  through \<^verbatim>\<open>sys.exit(1)\<close>: the run has sent exactly the one request and the process ends
  with status 1.
\<close>

theorem declined_retry_exits:
  assumes "srv (length (requests w)) (make_request self message) = Response 401 txt body"
    and "stdin w = Line answer # rest"
    and "lower (strip answer) \<noteq> ''y''"
  shows "fst (get_response srv self message w) = Abort (SystemExit 1) \<and>
         requests (snd (get_response srv self message w)) = requests w @ [make_request self message] \<and>
         exit_status (fst (handle (get_response srv self message) w)) = 1"
proof -
  let ?w1 = "w\<lparr>requests := requests w @ [make_request self message]\<rparr>"
  have "stdin ?w1 = Line answer # rest" using assms(2) by simp
  from ask_retry_Line [OF this]
  have "get_response srv self message w =
          (Abort (SystemExit 1),
           ?w1\<lparr>stdout := stdout w @
           [Print [Lit (esc # ''[40;91m ''), Lit ''Invalid API key! Please check your API key.'',
                   Lit (esc # ''[0m'')],
            Prompt [Lit ''\<newline>Would you like to enter a new API key? (y/n): '']],
         stdin := rest\<rparr>)"
    using assms(1,3) by (simp add: get_response.simps post_def sys_exit_def)
  then show ?thesis by (simp add: handle_def exit_status_def)
qed

theorem declined_retry_exits_witness:
  "fst (get_response rejecting_server
          \<lparr>config = ApiConfig_default\<lparr>api_key := JStr ''bad'', model := JStr ''sonar''\<rparr>, use_glow = False\<rparr>
          ''hi'' (world0\<lparr>stdin := [Line ''n'']\<rparr>)) = Abort (SystemExit 1) \<and>
   length (requests (snd (get_response rejecting_server
          \<lparr>config = ApiConfig_default\<lparr>api_key := JStr ''bad'', model := JStr ''sonar''\<rparr>, use_glow = False\<rparr>
          ''hi'' (world0\<lparr>stdin := [Line ''n'']\<rparr>)))) = 1"
  using declined_retry_exits
    [of rejecting_server "world0\<lparr>stdin := [Line ''n'']\<rparr>"
        "\<lparr>config = ApiConfig_default\<lparr>api_key := JStr ''bad'', model := JStr ''sonar''\<rparr>, use_glow = False\<rparr>"
        "''hi''" "[]" "Inr JNull" "''n''" "[]"]
  by (simp add: world0_def lower_def strip_def is_space_def lower_char_def rejecting_server_def)

section \<open>Retrying after a 401\<close>







section \<open>Rendering a successful response\<close>

text \<open>
  Claim C3 at the input where the code departs from it: a 200 response whose body is
  \<^verbatim>\<open>{"choices": [{}]}\<close> (a first choice without \<^verbatim>\<open>message\<close>). \<^verbatim>\<open>get_response\<close> guards only
  against \<^verbatim>\<open>choices\<close> being absent or empty; the subscript \<^verbatim>\<open>["message"]\<close> raises
  \<^verbatim>\<open>KeyError\<close>, \<^verbatim>\<open>main\<close> prints it as an error and the run ends with status 1. The
  "no content" notice is not printed.
\<close>

theorem missing_message_content_fails:
  "fst (main (answering_server (JObj [(''choices'', JArr [JObj []])]))
          (args0\<lparr>arg_api_key := Some ''X''\<rparr>) world0) = Abort (SystemExit 1) \<and>
   stdout (snd (main (answering_server (JObj [(''choices'', JArr [JObj []])]))
          (args0\<lparr>arg_api_key := Some ''X''\<rparr>) world0)) =
     [Print [Lit (esc # ''[40;91m ''), Lit ''Error: '', StrExn (KeyError (JStr ''message'')),
             Lit (esc # ''[0m'')]]"
  by code_simp

lemma print_all_eq: "print_all ls w = (Return (), w\<lparr>stdout := stdout w @ map Print ls\<rparr>)"
  by (induction ls arbitrary: w) (simp_all add: then_do_def print_def)

lemma show_citations_array:
  "show_citations (JArr cs) glow w =
     (Return (), w\<lparr>stdout := stdout w @ citations_section glow cs\<rparr>)"
  by (cases glow)
    (simp_all add: show_citations_def then_do_def lift_def py_iter_def print_all_eq
      citations_section_def comp_def header_def display_defs)

lemma show_usage_mapping:
  "show_usage (JObj us) glow w =
     (Return (), w\<lparr>stdout := stdout w @ usage_section glow us\<rparr>)"
  by (cases glow)
    (simp_all add: show_usage_def then_do_def lift_def py_items_def print_all_eq
      usage_section_def comp_def header_def display_defs case_prod_unfold)

lemma show_content_eq:
  "show_content self c w =
     (Return (), w\<lparr>stdout := stdout w @ content_section (use_glow self) c\<rparr>)"
  by (cases "use_glow self")
    (simp_all add: show_content_def then_do_def content_section_def header_def display_defs)

lemma py_in_mapping: "py_in k (JObj kvs) = Inr (map_of kvs k \<noteq> None)"
  by (simp add: py_in_def map_of_eq_None_iff)

lemma py_getitem_mapping:
  "py_getitem (JObj kvs) (JStr k) = (case map_of kvs k of Some x \<Rightarrow> Inr x | None \<Rightarrow> Inl (KeyError (JStr k)))"
  by (simp add: py_getitem_def)

lemma py_getitem_first: "py_getitem (JArr (x # xs)) (JInt 0) = Inr x"
  by (simp add: py_getitem_def py_index_def)

lemma on_success_rendered:
  assumes "wanted_citations self kvs = map_option JArr cit"
    and "wanted_usage self kvs = map_option JObj use"
    and "has_content kvs content"
  shows "on_success self (Inr (JObj kvs)) w =
           (Return (), w\<lparr>stdout := stdout w @ rendered (use_glow self) cit use content\<rparr>)"
proof -
  define w1 where "w1 = w\<lparr>stdout := stdout w @ (case cit of None \<Rightarrow> [] | Some cs \<Rightarrow> citations_section (use_glow self) cs)\<rparr>"
  define w2 where "w2 = w1\<lparr>stdout := stdout w1 @ (case use of None \<Rightarrow> [] | Some us \<Rightarrow> usage_section (use_glow self) us)\<rparr>"
  have c: "(if citations (config self)
        then then_do (lift (py_in ''citations'' (JObj kvs))) (\<lambda>present.
               if present
               then then_do (lift (py_getitem (JObj kvs) (JStr ''citations'')))
                      (\<lambda>c. show_citations c (use_glow self))
               else return ())
        else return ()) w = (Return (), w1)"
    using assms(1)
    by (cases cit)
      (auto simp: wanted_citations_def w1_def py_in_mapping py_getitem_mapping lift_def return_def
        then_do_def show_citations_array split: if_splits)
  have u: "(if usage (config self)
        then then_do (lift (py_in ''usage'' (JObj kvs))) (\<lambda>present.
               if present
               then then_do (lift (py_getitem (JObj kvs) (JStr ''usage'')))
                      (\<lambda>u. show_usage u (use_glow self))
               else return ())
        else return ()) w1 = (Return (), w2)"
    using assms(2)
    by (cases use)
      (auto simp: wanted_usage_def w2_def py_in_mapping py_getitem_mapping lift_def return_def
        then_do_def show_usage_mapping split: if_splits)
  have t: "then_do (lift (py_in ''choices'' (JObj kvs))) (\<lambda>present.
     then_do
       (if present
        then then_do (lift (py_getitem (JObj kvs) (JStr ''choices''))) (\<lambda>ch. return (truthy ch))
        else return False) (\<lambda>nonempty.
       if nonempty
       then
         then_do (lift (py_getitem (JObj kvs) (JStr ''choices''))) (\<lambda>ch.
         then_do (lift (py_getitem ch (JInt 0))) (\<lambda>first.
         then_do (lift (py_getitem first (JStr ''message''))) (\<lambda>msg.
         then_do (lift (py_getitem msg (JStr ''content''))) (\<lambda>content.
         show_content self content))))
       else display [Lit ''No response content received''] ''yellow'' False ''black'')) w2 =
     (Return (), w2\<lparr>stdout := stdout w2 @
        (case content of None \<Rightarrow> no_content_notice | Some c \<Rightarrow> content_section (use_glow self) c)\<rparr>)"
    using assms(3)
    by (cases content)
      (auto simp: has_content_def py_in_mapping py_getitem_mapping py_getitem_first lift_def
        return_def then_do_def show_content_eq truthy_def display_defs no_content_notice_def
        split: option.splits)
  show ?thesis
    unfolding on_success_def
    by (simp add: lift_def c u t) (simp add: w2_def w1_def rendered_def)
qed

text \<open>
  Claim C5. For a 200 response whose body is a JSON object, with \<^verbatim>\<open>citations\<close> an array
  and \<^verbatim>\<open>usage\<close> a mapping where they are rendered, \<^verbatim>\<open>get_response\<close> returns after writing
  exactly: the citations section if the citations flag is set and the field is present,
  then the usage section if the usage flag is set and the field is present, then the
  content section (or the notice that there is no content); each section starts with
  its own header. Nothing else is written and one request is sent.
\<close>

theorem sections_in_fixed_order:
  assumes "srv (length (requests w)) (make_request self message) = Response 200 txt (Inr (JObj kvs))"
    and "wanted_citations self kvs = map_option JArr cit"
    and "wanted_usage self kvs = map_option JObj use"
    and "has_content kvs content"
  shows "get_response srv self message w =
           (Return (),
            w\<lparr>requests := requests w @ [make_request self message],
              stdout := stdout w @
                (case cit of None \<Rightarrow> [] | Some cs \<Rightarrow> citations_section (use_glow self) cs) @
                (case use of None \<Rightarrow> [] | Some us \<Rightarrow> usage_section (use_glow self) us) @
                (case content of
                   None \<Rightarrow> no_content_notice
                 | Some c \<Rightarrow> content_section (use_glow self) c)\<rparr>)"
  using assms(1) on_success_rendered [OF assms(2-4)]
  by (subst get_response.simps) (simp add: post_def rendered_def)

theorem sections_in_fixed_order_witness:
  "stdout (snd (get_response (answering_server (JObj example_body)) example_self ''q''
                  world0)) =
     [Print [Lit ''# Citations''], Print [Lit ''- '', Str (JStr ''a'')],
      Print [Lit ''- '', Str (JStr ''b'')], Print [],
      Print [Lit ''# Tokens''], Print [Lit ''- '', Str (JStr ''total''), Lit '': '', Str (JInt 5)],
      Print [],
      Print [Lit ''# Content''], Print [Str (JStr ''hi'')]]"
  using sections_in_fixed_order
    [of "answering_server (JObj example_body)" world0 example_self "''q''" "[]"
        example_body "Some [JStr ''a'', JStr ''b'']" "Some [(''total'', JInt 5)]"
        "Some (JStr ''hi'')"]
  by (simp add: answering_server_def example_body_def example_self_def world0_def wanted_citations_def
      wanted_usage_def has_content_def citations_section_def usage_section_def
      content_section_def header_def ApiConfig_default_def)

section \<open>The header style\<close>

lemma same_but_header_refl [simp]: "same_but_header a a"
  by (simp add: same_but_header_def)

lemma alikeD:
  "alike m m' \<Longrightarrow> same_but_headers w v \<Longrightarrow> m w = (r1, w1) \<Longrightarrow> m' v = (r2, v1) \<Longrightarrow>
   r1 = r2 \<and> same_but_headers w1 v1"
  unfolding alike_def by (metis fst_conv snd_conv)

lemma alike_then_do:
  assumes "alike m m'" and "\<And>x. alike (f x) (f' x)"
  shows "alike (then_do m f) (then_do m' f')"
  unfolding alike_def
proof (intro allI impI)
  fix w v assume r: "same_but_headers w v"
  obtain r1 w1 where m: "m w = (r1, w1)" by (cases "m w")
  obtain r2 v1 where m': "m' v = (r2, v1)" by (cases "m' v")
  from alikeD [OF assms(1) r m m'] have eq: "r1 = r2" and r1: "same_but_headers w1 v1"
    by simp_all
  show "fst (then_do m f w) = fst (then_do m' f' v) \<and>
        same_but_headers (snd (then_do m f w)) (snd (then_do m' f' v))"
  proof (cases r1)
    case (Return x)
    with m m' eq assms(2) [of x] r1 show ?thesis by (auto simp: alike_def then_do_def)
  next
    case (Abort s)
    with m m' eq r1 show ?thesis by (auto simp: then_do_def)
  qed
qed

lemma alike_if: "alike a a' \<Longrightarrow> alike b b' \<Longrightarrow> alike (if c then a else b) (if c then a' else b')"
  by simp

lemma alike_return: "alike (return x) (return x)"
  by (simp add: alike_def return_def)

lemma alike_sys_exit: "alike (sys_exit c) (sys_exit c)"
  by (simp add: alike_def sys_exit_def)

lemma alike_lift: "alike (lift r) (lift r)"
  by (simp add: alike_def lift_def split: sum.splits)

lemma alike_print: "alike (print l) (print l)"
  by (simp add: alike_def print_def same_but_headers_def list_all2_appendI)

lemma alike_print_all: "alike (print_all ls) (print_all ls)"
  by (simp add: alike_def print_all_eq same_but_headers_def list_all2_appendI list.rel_refl)

lemma alike_display: "alike (display m c b g) (display m c b g)"
  by (simp add: alike_def display_defs same_but_headers_def list_all2_appendI
      split: option.splits)

lemma alike_input: "alike (input p) (input p)"
  by (auto simp: alike_def input_def same_but_headers_def list_all2_appendI Let_def
      split: list.splits input_ev.splits)

lemma alike_load_config: "alike load_config load_config"
  by (auto simp: alike_def load_config_def same_but_headers_def then_do_def logger_error_def
      return_def split: file_state.splits)

lemma alike_save_config: "alike (save_config c) (save_config c)"
  by (auto simp: alike_def save_config_def same_but_headers_def logger_error_def
      split: fault.splits)

lemma alike_save_api_key: "alike (save_api_key k) (save_api_key k)"
  unfolding save_api_key_def
  by (intro alike_then_do alike_load_config alike_lift alike_save_config)

lemma alike_prompt_for_api_key: "alike prompt_for_api_key prompt_for_api_key"
  unfolding prompt_for_api_key_def Let_def
  by (intro alike_then_do alike_if alike_display alike_input alike_sys_exit alike_return
      alike_save_api_key)

lemma alike_ask_retry: "alike ask_retry ask_retry"
  unfolding ask_retry_def by (intro alike_then_do alike_display alike_input)

lemma alike_post: "alike (post srv req) (post srv req)"
  by (simp add: alike_def post_def same_but_headers_def)

lemma alike_header:
  "title \<in> {''Citations'', ''Tokens'', ''Content''} \<Longrightarrow>
   alike (print [Lit (''# '' @ title)]) (display [Lit title] ''yellow'' True ''blue'')"
  by (auto simp: alike_def display_defs same_but_headers_def same_but_header_def header_def
      intro!: list_all2_appendI)

lemma alike_show_citations: "alike (show_citations c True) (show_citations c False)"
  unfolding show_citations_def
  using alike_header [of "''Citations''"]
  by (intro alike_then_do alike_lift alike_print_all alike_print) simp

lemma alike_show_usage: "alike (show_usage u True) (show_usage u False)"
  unfolding show_usage_def
  using alike_header [of "''Tokens''"]
  by (intro alike_then_do alike_lift alike_print_all alike_print) simp

lemma alike_show_content:
  "alike (show_content (self\<lparr>use_glow := True\<rparr>) c) (show_content (self\<lparr>use_glow := False\<rparr>) c)"
  unfolding show_content_def
  using alike_header [of "''Content''"]
  by (intro alike_then_do alike_print) simp

lemma alike_on_success:
  "alike (on_success (self\<lparr>use_glow := True\<rparr>) body) (on_success (self\<lparr>use_glow := False\<rparr>) body)"
  unfolding on_success_def
  by (intro alike_then_do alike_if alike_lift alike_return alike_display alike_show_content)
    (simp_all add: alike_show_citations alike_show_usage alike_return alike_then_do alike_lift)

lemma alike_failure:
  "alike (then_do (display m c b g) (\<lambda>_. sys_exit code))
         (then_do (display m c b g) (\<lambda>_. sys_exit code) :: unit io)"
  by (intro alike_then_do alike_display alike_sys_exit)

lemma alike_apply:
  "alike m m' \<Longrightarrow> same_but_headers w v \<Longrightarrow>
   fst (m w) = fst (m' v) \<and> same_but_headers (snd (m w)) (snd (m' v))"
  by (simp add: alike_def)

lemma alike_get_response:
  assumes "same_but_headers w v" and "P = self\<lparr>use_glow := True\<rparr>"
  shows "fst (get_response srv P message w) =
           fst (get_response srv (self\<lparr>use_glow := False\<rparr>) message v) \<and>
         same_but_headers (snd (get_response srv P message w))
           (snd (get_response srv (self\<lparr>use_glow := False\<rparr>) message v))"
  using assms
proof (induction srv P message w arbitrary: self v rule: get_response.induct)
  case (1 srv P message w)
  let ?Q = "self\<lparr>use_glow := False\<rparr>"
  let ?req = "make_request P message"
  let ?w1 = "w\<lparr>requests := requests w @ [?req]\<rparr>"
  let ?v1 = "v\<lparr>requests := requests v @ [?req]\<rparr>"
  from "1.prems" have req: "make_request ?Q message = ?req"
    by (simp add: make_request_def)
  from "1.prems" have len: "length (requests v) = length (requests w)"
    by (simp add: same_but_headers_def)
  from "1.prems" have r1: "same_but_headers ?w1 ?v1"
    by (simp add: same_but_headers_def)
  show ?case
  proof (cases "srv (length (requests w)) ?req")
    case (ConnectionFailed e)
    let ?fail = "then_do (display [Lit ''Network error: '', StrExn e] ''red'' False ''black'')
                   (\<lambda>_. sys_exit 1) :: unit io"
    have lhs: "get_response srv P message w = ?fail ?w1"
      using ConnectionFailed by (subst get_response.simps) (simp add: post_def)
    have rhs: "get_response srv ?Q message v = ?fail ?v1"
      using ConnectionFailed by (subst get_response.simps) (simp add: post_def req len)
    show ?thesis unfolding lhs rhs by (rule alike_apply [OF alike_failure r1])
  next
    case (Response status_code tx body)
    note resp = this
    consider (ok) "status_code = 200" | (unauth) "status_code = 401"
      | (other) "status_code \<noteq> 200" "status_code \<noteq> 401" by blast
    then show ?thesis
    proof cases
      case ok
      have lhs: "get_response srv P message w = on_success (self\<lparr>use_glow := True\<rparr>) body ?w1"
        using resp ok "1.prems"(2) by (subst get_response.simps) (simp add: post_def)
      have rhs: "get_response srv ?Q message v = on_success ?Q body ?v1"
        using resp ok by (subst get_response.simps) (simp add: post_def req len)
      show ?thesis unfolding lhs rhs by (rule alike_apply [OF alike_on_success r1])
    next
      case other
      let ?fail = "then_do (display [Lit ''Error '', Str (JInt status_code), Lit '': '', Str (JStr tx)]
                      ''red'' False ''black'') (\<lambda>_. sys_exit 1) :: unit io"
      have lhs: "get_response srv P message w = ?fail ?w1"
        using resp other by (subst get_response.simps) (simp add: post_def)
      have rhs: "get_response srv ?Q message v = ?fail ?v1"
        using resp other by (subst get_response.simps) (simp add: post_def req len)
      show ?thesis unfolding lhs rhs by (rule alike_apply [OF alike_failure r1])
    next
      case unauth
      obtain a w2 where aw: "ask_retry ?w1 = (a, w2)" by (cases "ask_retry ?w1")
      obtain a' v2 where av: "ask_retry ?v1 = (a', v2)" by (cases "ask_retry ?v1")
      from alikeD [OF alike_ask_retry r1 aw av] have a: "a' = a" and r2: "same_but_headers w2 v2"
        by simp_all
      show ?thesis
      proof (cases a)
        case (Abort s)
        have lhs: "get_response srv P message w = (Abort s, w2)"
          using resp unauth aw Abort by (subst get_response.simps) (simp add: post_def)
        have rhs: "get_response srv ?Q message v = (Abort s, v2)"
          using resp unauth av a Abort by (subst get_response.simps) (simp add: post_def req len)
        show ?thesis unfolding lhs rhs using r2 by simp
      next
        case (Return answer)
        note answer = this
        show ?thesis
        proof (cases "lower (strip answer) = ''y''")
          case False
          have lhs: "get_response srv P message w = (Abort (SystemExit 1), w2)"
            using resp unauth aw answer False
            by (subst get_response.simps) (simp add: post_def sys_exit_def)
          have rhs: "get_response srv ?Q message v = (Abort (SystemExit 1), v2)"
            using resp unauth av a answer False
            by (subst get_response.simps) (simp add: post_def req len sys_exit_def)
          show ?thesis unfolding lhs rhs using r2 by simp
        next
          case True
          obtain k w3 where kw: "prompt_for_api_key w2 = (k, w3)"
            by (cases "prompt_for_api_key w2")
          obtain k' v3 where kv: "prompt_for_api_key v2 = (k', v3)"
            by (cases "prompt_for_api_key v2")
          from alikeD [OF alike_prompt_for_api_key r2 kw kv]
          have k: "k' = k" and r3: "same_but_headers w3 v3" by simp_all
          show ?thesis
          proof (cases k)
            case (Abort s)
            have lhs: "get_response srv P message w = (Abort s, w3)"
              using resp unauth aw answer True kw Abort
              by (subst get_response.simps) (simp add: post_def)
            have rhs: "get_response srv ?Q message v = (Abort s, v3)"
              using resp unauth av a answer True kv k Abort
              by (subst get_response.simps) (simp add: post_def req len)
            show ?thesis unfolding lhs rhs using r3 by simp
          next
            case (Return new_key)
            let ?self = "self\<lparr>config := (config self)\<lparr>api_key := JStr new_key\<rparr>\<rparr>"
            let ?P = "P\<lparr>config := (config P)\<lparr>api_key := JStr new_key\<rparr>\<rparr>"
            have P': "?P = ?self\<lparr>use_glow := True\<rparr>"
              using "1.prems"(2) by simp
            have post: "post srv ?req w = (Return (Response status_code tx body), ?w1)"
              using resp by (simp add: post_def)
            from unauth have ne: "status_code \<noteq> 200" by simp
            note IH = "1.IH" [OF post [symmetric] refl refl ne unauth aw [symmetric] answer True
                kw [symmetric] Return r3 P']
            have lhs: "get_response srv P message w = get_response srv ?P message w3"
              using resp unauth aw answer True kw Return
              by (subst get_response.simps) (simp add: post_def)
            have swap: "?Q\<lparr>config := (config ?Q)\<lparr>api_key := JStr new_key\<rparr>\<rparr> =
                    ?self\<lparr>use_glow := False\<rparr>"
              by (cases self) simp
            have "get_response srv ?Q message v =
                    get_response srv (?Q\<lparr>config := (config ?Q)\<lparr>api_key := JStr new_key\<rparr>\<rparr>)
                      message v3"
              using resp unauth av a answer True kv k Return
              by (subst get_response.simps) (simp add: post_def req len)
            then have rhs: "get_response srv ?Q message v =
                    get_response srv (?self\<lparr>use_glow := False\<rparr>) message v3"
              by (simp only: swap)
            show ?thesis unfolding lhs rhs using IH by simp
          qed
        qed
      qed
    qed
  qed
qed

text \<open>
  Claim C9. Run \<^verbatim>\<open>get_response\<close> twice from the same world, on the same responses and
  the same input, once with the glow style and once with the plain style. Both runs end
  the same way (same return or exit), send the same requests, and leave the same
  settings file, input and error log; their outputs have the same length and agree line
  by line, except that where one has a section header in the glow style the other has
  the same header in the plain style. So the citation lines, the usage lines and the
  content text are identical.
\<close>

theorem glow_changes_only_headers:
  "fst (get_response srv (self\<lparr>use_glow := True\<rparr>) message w) =
     fst (get_response srv (self\<lparr>use_glow := False\<rparr>) message w) \<and>
   same_but_headers (snd (get_response srv (self\<lparr>use_glow := True\<rparr>) message w))
     (snd (get_response srv (self\<lparr>use_glow := False\<rparr>) message w))"
proof -
  have "same_but_headers w w"
    by (simp add: same_but_headers_def list.rel_refl)
  from alike_get_response [OF this refl] show ?thesis .
qed

theorem glow_changes_only_headers_witness:
  "list_all2 same_but_header
     (stdout (snd (get_response (answering_server (JObj example_body))
                     (example_self\<lparr>use_glow := True\<rparr>) ''q'' world0)))
     (stdout (snd (get_response (answering_server (JObj example_body))
                     (example_self\<lparr>use_glow := False\<rparr>) ''q'' world0)))"
  using glow_changes_only_headers
    [of "answering_server (JObj example_body)" example_self "''q''" world0]
  by (simp add: same_but_headers_def)

end
